theory Spec2Isabelle
  imports Complex_Main
begin

unbundle bit_operations_syntax

section \<open>Data model\<close>

text \<open>
  The detector returns, for every page, a list of staff systems; a system is a list of
  staff lines; a staff line is a polyline of points \<open>[y, x]\<close> (row first, column second).
  The source annotates the result as \<^verbatim>\<open>List[List[List[int]]]\<close>, so coordinates are
  integers here. Images are two-dimensional arrays, modelled as lists of rows.
\<close>

type_synonym point = "int \<times> int"
type_synonym line = "point list"
type_synonym system = "line list"
type_synonym 'a array2 = "'a list list"

text \<open>The Python exceptions that the modelled code itself can raise.\<close>

datatype error = IndexError | ValueError

text \<open>
  \<^verbatim>\<open>LineDetectionSettings\<close> is declared in \<^verbatim>\<open>lineDetector.py\<close>; the record holds the
  fields that \<^verbatim>\<open>lineDetection.py\<close> reads. \<open>model\<close> is an optional path, the
  smoothing strengths and the fitting distance are Python floats, modelled as rationals.
\<close>

record LineDetectionSettings =
  numLine :: int
  minLength :: int
  lineExtension :: bool
  debug :: bool
  lineSpaceHeight :: int
  model :: "string option"
  processes :: int
  post_process :: bool
  smooth_lines :: int
  smooth_value_lowpass :: rat
  smooth_value_adv :: rat
  line_fit_distance :: rat

text \<open>
  \<^verbatim>\<open>ImageData\<close>: the per-page aggregate. \<open>image\<close> is the gray image,
  \<open>horizontal_runs_img\<close> the run-length filtered image.
\<close>

record ImageData =
  image :: "rat array2"
  staff_space_height :: int
  staff_line_height :: int
  horizontal_runs_img :: "rat array2"

text \<open>
  The functions that \<^verbatim>\<open>lineDetection.py\<close> imports or inherits and whose bodies are in
  other modules (\<^verbatim>\<open>lineDetector\<close>, \<^verbatim>\<open>lineDetectionUtil\<close>, \<^verbatim>\<open>preprocessingUtil\<close>,
  the binarizer, the enhancer, the pixel classifier) and in numpy and scipy. They are
  parameters of the model: every theorem below that does not constrain them holds for
  all their implementations. They are total functions: an exception raised inside one
  of them is outside the model. \<open>'cc\<close> is the type of a connected component. The
  method \<^verbatim>\<open>smooth_lines\<close> is \<open>smooth_lines_method\<close> here, since the settings field has
  the same name.
\<close>

record 'cc collaborators =
  extract_connected_components :: "rat array2 \<Rightarrow> 'cc list"
  normalize_connected_components :: "'cc list \<Rightarrow> 'cc list"
  connect_connected_components_to_line :: "'cc list \<Rightarrow> int \<Rightarrow> int \<Rightarrow> line list"
  prune_small_lines :: "line list \<Rightarrow> int \<Rightarrow> line list"
  organize_lines_in_systems :: "line list \<Rightarrow> int \<Rightarrow> int \<Rightarrow> system list"
  prune_lines_in_system_with_lowest_intensity :: "system list \<Rightarrow> rat array2 \<Rightarrow> system list"
  normalize_lines_in_system :: "system list \<Rightarrow> int \<Rightarrow> rat array2 \<Rightarrow> system list"
  postprocess_staff_systems :: "system list \<Rightarrow> int \<Rightarrow> int array2 \<Rightarrow> system list"
  smooth_lines_method :: "system list \<Rightarrow> rat \<Rightarrow> system list"
  smooth_lines_advanced :: "system list \<Rightarrow> rat \<Rightarrow> system list"
  line_fitting :: "system list \<Rightarrow> rat \<Rightarrow> system list"
  binarize :: "rat array2 \<Rightarrow> int array2"
  enhance :: "rat array2 \<Rightarrow> rat array2"
  histogram :: "rat array2 \<Rightarrow> int list"
  binary_erosion :: "int array2 \<Rightarrow> int array2 \<Rightarrow> bool array2"
  binary_dilation :: "bool array2 \<Rightarrow> int array2 \<Rightarrow> bool array2"
  vertical_runs :: "int array2 \<Rightarrow> int \<times> int"
  calculate_horizontal_runs :: "rat array2 \<Rightarrow> int \<Rightarrow> rat array2"
  create_data :: "int array2 \<Rightarrow> int \<Rightarrow> ImageData"
  predict :: "ImageData list \<Rightarrow> int array2 list"

text \<open>
  The calls of \<^verbatim>\<open>detect_staff_lines\<close> to the stages of the pipeline, in the order in
  which they are made. The two smoothers and the fitter are logged with the strength
  they are called with.
\<close>

datatype call =
    Extract_connected_components
  | Normalize_connected_components
  | Connect_connected_components_to_line
  | Prune_small_lines
  | Organize_lines_in_systems
  | Prune_lines_in_system_with_lowest_intensity
  | Normalize_lines_in_system
  | Postprocess_staff_systems
  | Smooth_lines rat
  | Smooth_lines_advanced rat
  | Line_fitting rat

section \<open>\<^verbatim>\<open>detect_staff_lines\<close>\<close>

text \<open>
  Line 122: \<^verbatim>\<open>[l for l in line_list if l[-1][1] - l[0][1] > 50]\<close>. Indexing an empty
  line raises IndexError, which ends the comprehension.
\<close>

definition horizontal_span :: "line \<Rightarrow> error + int" where
  "horizontal_span l =
     (case l of [] \<Rightarrow> Inl IndexError | _ # _ \<Rightarrow> Inr (snd (last l) - snd (hd l)))"

fun keep_long_lines :: "line list \<Rightarrow> error + line list" where
  "keep_long_lines [] = Inr []"
| "keep_long_lines (l # ls) =
     (case horizontal_span l of
        Inl e \<Rightarrow> Inl e
      | Inr w \<Rightarrow>
          (case keep_long_lines ls of
             Inl e \<Rightarrow> Inl e
           | Inr ks \<Rightarrow> Inr (if w > 50 then l # ks else ks)))"

text \<open>Lines 129 to 136: grouping into systems, or one singleton system per line.\<close>

definition group_lines ::
  "LineDetectionSettings \<Rightarrow> 'cc collaborators \<Rightarrow> line list \<Rightarrow> int \<Rightarrow> int \<Rightarrow>
     rat array2 \<Rightarrow> call list \<times> system list" where
  "group_lines s h line_list ssh slh img =
     (if numLine s > 1 then
        (let staff_list = organize_lines_in_systems h line_list ssh slh;
             staff_list = prune_lines_in_system_with_lowest_intensity h staff_list img
         in if lineExtension s
            then ([Organize_lines_in_systems, Prune_lines_in_system_with_lowest_intensity,
                   Normalize_lines_in_system],
                  normalize_lines_in_system h staff_list ssh img)
            else ([Organize_lines_in_systems, Prune_lines_in_system_with_lowest_intensity],
                  staff_list))
      else ([], map (\<lambda>x. [x]) line_list))"

text \<open>Lines 138 to 141: post-processing, followed by the normalizer under its guard.\<close>

definition post_process_stage ::
  "LineDetectionSettings \<Rightarrow> 'cc collaborators \<Rightarrow> system list \<Rightarrow> int \<Rightarrow> int \<Rightarrow>
     rat array2 \<Rightarrow> rat array2 \<Rightarrow> call list \<times> system list" where
  "post_process_stage s h staff_list ssh slh img gray =
     (if post_process s then
        (let staff_list = postprocess_staff_systems h staff_list slh (binarize h gray)
         in if numLine s > 1 \<and> lineExtension s
            then ([Postprocess_staff_systems, Normalize_lines_in_system],
                  normalize_lines_in_system h staff_list ssh img)
            else ([Postprocess_staff_systems], staff_list))
      else ([], staff_list))"

text \<open>Lines 143 to 147: the two \<^verbatim>\<open>if\<close> statements under \<^verbatim>\<open>smooth_lines != 0\<close>.\<close>

definition smoothing_stage ::
  "LineDetectionSettings \<Rightarrow> 'cc collaborators \<Rightarrow> system list \<Rightarrow>
     call list \<times> system list" where
  "smoothing_stage s h staff_list =
     (if smooth_lines s \<noteq> 0 then
        (let (c1, staff_list) =
               (if smooth_lines s = 1
                then ([Smooth_lines (smooth_value_lowpass s)],
                      smooth_lines_method h staff_list (smooth_value_lowpass s))
                else ([], staff_list));
             (c2, staff_list) =
               (if smooth_lines s = 2
                then ([Smooth_lines_advanced (smooth_value_adv s)],
                      smooth_lines_advanced h staff_list (smooth_value_adv s))
                else ([], staff_list))
         in (c1 @ c2, staff_list))
      else ([], staff_list))"

text \<open>Lines 149 and 150.\<close>

definition fitting_stage ::
  "LineDetectionSettings \<Rightarrow> 'cc collaborators \<Rightarrow> system list \<Rightarrow>
     call list \<times> system list" where
  "fitting_stage s h staff_list =
     (if line_fit_distance s > 0
      then ([Line_fitting (line_fit_distance s)],
            line_fitting h staff_list (line_fit_distance s))
      else ([], staff_list))"

text \<open>
  Lines 153 to 170 plot the result when \<open>debug\<close> is set and leave \<open>staff_list\<close> as it
  is. The plot is not modelled; the unpacking \<^verbatim>\<open>y, x = zip(*staff)\<close> is, which raises
  ValueError on a line without points.
\<close>

definition debug_stage :: "LineDetectionSettings \<Rightarrow> system list \<Rightarrow> error + system list" where
  "debug_stage s staff_list =
     (if debug s \<and> list_ex (\<lambda>system. list_ex (\<lambda>staff. staff = []) system) staff_list
      then Inl ValueError else Inr staff_list)"

text \<open>
  Lines 112 to 171. The result is the list of stage calls made together with the
  returned \<open>staff_list\<close>, or the exception raised.
\<close>

definition detect_staff_lines ::
  "LineDetectionSettings \<Rightarrow> 'cc collaborators \<Rightarrow> ImageData \<Rightarrow>
     error + (call list \<times> system list)" where
  "detect_staff_lines s h image_data =
     (let img = horizontal_runs_img image_data;
          slh = staff_line_height image_data;
          ssh = staff_space_height image_data;
          cc_list = extract_connected_components h img;
          cc_list = normalize_connected_components h cc_list;
          line_list = connect_connected_components_to_line h cc_list slh ssh
      in case keep_long_lines line_list of
           Inl e \<Rightarrow> Inl e
         | Inr line_list \<Rightarrow>
             (let line_list = prune_small_lines h line_list ssh;
                  (c1, staff_list) = group_lines s h line_list ssh slh img;
                  (c2, staff_list) =
                     post_process_stage s h staff_list ssh slh img (image image_data);
                  (c3, staff_list) = smoothing_stage s h staff_list;
                  (c4, staff_list) = fitting_stage s h staff_list
              in case debug_stage s staff_list of
                   Inl e \<Rightarrow> Inl e
                 | Inr staff_list \<Rightarrow>
                     Inr ([Extract_connected_components, Normalize_connected_components,
                           Connect_connected_components_to_line, Prune_small_lines]
                            @ c1 @ c2 @ c3 @ c4,
                          staff_list)))"

section \<open>\<^verbatim>\<open>detect_basic\<close>, \<^verbatim>\<open>detect_advanced\<close> and \<^verbatim>\<open>detect\<close>\<close>

text \<open>
  A generator is modelled by the list of what it yields; an exception ends it, and is
  the last element of the list.
\<close>

fun yield_each :: "('a \<Rightarrow> error + 'b) \<Rightarrow> 'a list \<Rightarrow> (error + 'b) list" where
  "yield_each f [] = []"
| "yield_each f (x # xs) =
     (case f x of Inl e \<Rightarrow> [Inl e] | Inr y \<Rightarrow> Inr y # yield_each f xs)"

text \<open>Line 87: \<^verbatim>\<open>img.astype(float) / 255\<close>, element by element.\<close>

definition scale255 :: "int array2 \<Rightarrow> rat array2" where
  "scale255 img = map (map (\<lambda>v. of_int v / 255)) img"

text \<open>The slice \<^verbatim>\<open>[1:-2]\<close> of a sequence: the indices from 1 up to the length minus 3.\<close>

definition slice_1_m2 :: "'a list \<Rightarrow> 'a list" where
  "slice_1_m2 xs = drop 1 (take (length xs - 2) xs)"

text \<open>Lines 87 to 91: the scaled image, enhanced or not, binarized.\<close>

definition basic_binary :: "'cc collaborators \<Rightarrow> int array2 \<Rightarrow> int array2" where
  "basic_binary h img =
     (let image = scale255 img;
          gray = image;
          gray = (if sum_list (slice_1_m2 (histogram h gray)) \<noteq> 0 then enhance h image
                  else gray)
      in binarize h gray)"

text \<open>
  Lines 86 to 97: the \<^verbatim>\<open>ImageData\<close> that \<^verbatim>\<open>detect_basic\<close> builds for one image.
  \<^verbatim>\<open>np.full((5, 1), 1)\<close> is five rows of one 1; \<^verbatim>\<open>^\<close> between an integer array
  and a boolean array is the bitwise exclusive or with 0 and 1.
\<close>

definition basic_image_data ::
  "LineDetectionSettings \<Rightarrow> 'cc collaborators \<Rightarrow> int array2 \<Rightarrow> ImageData" where
  "basic_image_data s h img =
     (let binary = basic_binary h img;
          binarized = map (map (\<lambda>v. 1 - v)) binary;
          morph = binary_erosion h binarized (replicate 5 [1]);
          morph = binary_dilation h morph (replicate 5 [1]);
          staffs = map2 (map2 (\<lambda>a b. a XOR of_bool b)) binarized morph;
          (ssh, slh) = vertical_runs h binary
      in \<lparr>image = scale255 img, staff_space_height = ssh, staff_line_height = slh,
          horizontal_runs_img =
            calculate_horizontal_runs h (map (map (\<lambda>v. of_int (1 - v))) staffs)
              (minLength s)\<rparr>)"

text \<open>Lines 84 to 98.\<close>

definition detect_basic ::
  "LineDetectionSettings \<Rightarrow> 'cc collaborators \<Rightarrow> int array2 list \<Rightarrow>
     (error + (call list \<times> system list)) list" where
  "detect_basic s h images =
     yield_each (\<lambda>img. detect_staff_lines s h (basic_image_data s h img)) images"

text \<open>
  Lines 106 to 110: the loop over the predictions, \<open>i\<close> counting them. \<^verbatim>\<open>data[i]\<close>
  raises IndexError when the predictor yields more predictions than there are images.
\<close>

fun advanced_loop ::
  "LineDetectionSettings \<Rightarrow> 'cc collaborators \<Rightarrow> ImageData list \<Rightarrow> nat \<Rightarrow>
     int array2 list \<Rightarrow> (error + (call list \<times> system list)) list" where
  "advanced_loop s h data i [] = []"
| "advanced_loop s h data i (pred # preds) =
     (if i < length data then
        (let pred = map (map (\<lambda>v. if v > 0 then 255 else v)) pred;
             d = data ! i;
             (ssh, slh) = vertical_runs h (binarize h (map (map (\<lambda>v. v / 255)) (image d)));
             d = d\<lparr>staff_space_height := ssh, staff_line_height := slh\<rparr>;
             d = d\<lparr>horizontal_runs_img :=
                    calculate_horizontal_runs h (map (map (\<lambda>v. 1 - of_int v / 255)) pred)
                      (minLength s)\<rparr>
         in case detect_staff_lines s h d of
              Inl e \<Rightarrow> [Inl e]
            | Inr r \<Rightarrow> Inr r # advanced_loop s h data (Suc i) preds)
      else [Inl IndexError])"

text \<open>Lines 100 to 110; the process pool maps \<^verbatim>\<open>create_data\<close> over the images in order.\<close>

definition detect_advanced ::
  "LineDetectionSettings \<Rightarrow> 'cc collaborators \<Rightarrow> int array2 list \<Rightarrow>
     (error + (call list \<times> system list)) list" where
  "detect_advanced s h images =
     (let data = map (\<lambda>img. create_data h img (lineSpaceHeight s)) images
      in advanced_loop s h data 0 (predict h data))"

text \<open>Python's truth value of \<^verbatim>\<open>settings.model\<close>: None and the empty string are false.\<close>

definition truthy :: "string option \<Rightarrow> bool" where
  "truthy m = (case m of None \<Rightarrow> False | Some p \<Rightarrow> p \<noteq> [])"

text \<open>Lines 79 to 82.\<close>

definition detect ::
  "LineDetectionSettings \<Rightarrow> 'cc collaborators \<Rightarrow> int array2 list \<Rightarrow>
     (error + (call list \<times> system list)) list" where
  "detect s h images =
     (if \<not> truthy (model s) then detect_basic s h images else detect_advanced s h images)"

section \<open>The System Organizer of the specification\<close>

text \<open>
  Modelled from the spec: \<^verbatim>\<open>organize_lines_in_systems\<close>, a method of the class
  \<^verbatim>\<open>LineDetector\<close> in \<^verbatim>\<open>lineDetector.py\<close>, which is not among the sources. The
  specification (section 4.5): starting from the topmost unassigned line, greedily collect
  subsequent lines whose vertical offset from the previous line in the group is within
  tolerance of \<open>staff_space_height\<close>, until \<open>numLine\<close> lines are collected or spacing
  breaks; lines that cannot form a complete, consistently spaced group are dropped.
  The specification fixes neither the row that stands for a line nor the tolerance:
  both are parameters (\<open>row\<close>, \<open>tol\<close>). \<open>cur\<close> is the group being collected.
\<close>

definition within_tolerance :: "(line \<Rightarrow> int) \<Rightarrow> int \<Rightarrow> int \<Rightarrow> line \<Rightarrow> line \<Rightarrow> bool" where
  "within_tolerance row tol ssh prev l = (\<bar>(row l - row prev) - ssh\<bar> \<le> tol)"

fun organize_from ::
  "(line \<Rightarrow> line \<Rightarrow> bool) \<Rightarrow> nat \<Rightarrow> line list \<Rightarrow> line list \<Rightarrow> system list" where
  "organize_from fits n cur [] = []"
| "organize_from fits n cur (l # ls) =
     (let cur' = (if cur \<noteq> [] \<and> fits (last cur) l then cur @ [l] else [l])
      in if length cur' = n then cur' # organize_from fits n [] ls
         else organize_from fits n cur' ls)"

definition organize_lines_in_systems_spec ::
  "(line \<Rightarrow> int) \<Rightarrow> int \<Rightarrow> int \<Rightarrow> line list \<Rightarrow> int \<Rightarrow> system list" where
  "organize_lines_in_systems_spec row tol num_line line_list ssh =
     organize_from (within_tolerance row tol ssh) (nat num_line) [] line_list"

section \<open>A concrete instance\<close>

text \<open>
  Collaborators on which the pipeline can be run: the extractor returns the given
  components, the builder takes every component as a line, the organizer is the one of
  the specification (a line stands at the row of its first point, the tolerance is 2),
  the binarizer thresholds at one half, the low-pass smoother moves every point one row
  down and the advanced smoother two rows, the fitter keeps the two end points of a line,
  and the other stages return their input.
\<close>

definition first_row :: "line \<Rightarrow> int" where
  "first_row l = (case l of [] \<Rightarrow> 0 | p # _ \<Rightarrow> fst p)"

definition sample_collaborators :: "int \<Rightarrow> line list \<Rightarrow> line collaborators" where
  "sample_collaborators n comps =
     \<lparr>extract_connected_components = (\<lambda>img. comps),
      normalize_connected_components = (\<lambda>cc_list. cc_list),
      connect_connected_components_to_line = (\<lambda>cc_list slh ssh. cc_list),
      prune_small_lines = (\<lambda>line_list ssh. line_list),
      organize_lines_in_systems =
        (\<lambda>line_list ssh slh. organize_lines_in_systems_spec first_row 2 n line_list ssh),
      prune_lines_in_system_with_lowest_intensity = (\<lambda>staff_list img. staff_list),
      normalize_lines_in_system = (\<lambda>staff_list ssh img. staff_list),
      postprocess_staff_systems = (\<lambda>staff_list slh binary. staff_list),
      smooth_lines_method = (\<lambda>staff_list v. map (map (map (\<lambda>(y, x). (y + 1, x)))) staff_list),
      smooth_lines_advanced = (\<lambda>staff_list v. map (map (map (\<lambda>(y, x). (y + 2, x)))) staff_list),
      line_fitting =
        (\<lambda>staff_list v. map (map (\<lambda>l. if length l > 2 then [hd l, last l] else l)) staff_list),
      binarize = map (map (\<lambda>v. if v > 1 / 2 then 1 else 0)),
      enhance = (\<lambda>gray. gray),
      histogram = (\<lambda>gray. replicate 10 0),
      binary_erosion = (\<lambda>a structure. map (map (\<lambda>v. v \<noteq> 0)) a),
      binary_dilation = (\<lambda>a structure. a),
      vertical_runs = (\<lambda>binary. (20, 2)),
      calculate_horizontal_runs = (\<lambda>a min_length. a),
      create_data =
        (\<lambda>img line_space_height.
           \<lparr>image = map (map of_int) img, staff_space_height = 0, staff_line_height = 0,
            horizontal_runs_img = []\<rparr>),
      predict = map (\<lambda>d. map (map (\<lambda>v. 0)) (image d))\<rparr>"

definition sample_settings :: LineDetectionSettings where
  "sample_settings =
     \<lparr>numLine = 1, minLength = 6, lineExtension = True, debug = False,
      lineSpaceHeight = 20, model = None, processes = 1, post_process = True,
      smooth_lines = 0, smooth_value_lowpass = 1 / 5, smooth_value_adv = 25,
      line_fit_distance = 0\<rparr>"

definition sample_image_data :: ImageData where
  "sample_image_data =
     \<lparr>image = [[1, 0], [1, 1]], staff_space_height = 20, staff_line_height = 2,
      horizontal_runs_img = [[0, 1], [0, 0]]\<rparr>"

text \<open>The calls made after the call of the post-processor, and whether the normalizer is among them.\<close>

definition after_postprocess :: "call list \<Rightarrow> call list" where
  "after_postprocess calls = drop 1 (dropWhile (\<lambda>c. c \<noteq> Postprocess_staff_systems) calls)"

definition renormalized :: "call list \<Rightarrow> bool" where
  "renormalized calls = (Normalize_lines_in_system \<in> set (after_postprocess calls))"

section \<open>The values of \<^verbatim>\<open>line_list\<close> and \<^verbatim>\<open>staff_list\<close> along \<^verbatim>\<open>detect_staff_lines\<close>\<close>

text \<open>\<^verbatim>\<open>line_list\<close> after line 119.\<close>

definition built_lines :: "'cc collaborators \<Rightarrow> ImageData \<Rightarrow> line list" where
  "built_lines h d =
     connect_connected_components_to_line h
       (normalize_connected_components h
          (extract_connected_components h (horizontal_runs_img d)))
       (staff_line_height d) (staff_space_height d)"

text \<open>
  \<^verbatim>\<open>staff_list\<close> after lines 136, 141, 147 and 150, where \<open>kept\<close> is \<^verbatim>\<open>line_list\<close> after
  line 122.
\<close>

definition grouped_staff_list ::
  "LineDetectionSettings \<Rightarrow> 'cc collaborators \<Rightarrow> ImageData \<Rightarrow> line list \<Rightarrow> system list" where
  "grouped_staff_list s h d kept =
     snd (group_lines s h (prune_small_lines h kept (staff_space_height d))
            (staff_space_height d) (staff_line_height d) (horizontal_runs_img d))"

definition post_processed_staff_list ::
  "LineDetectionSettings \<Rightarrow> 'cc collaborators \<Rightarrow> ImageData \<Rightarrow> line list \<Rightarrow> system list" where
  "post_processed_staff_list s h d kept =
     snd (post_process_stage s h (grouped_staff_list s h d kept)
            (staff_space_height d) (staff_line_height d) (horizontal_runs_img d) (image d))"

definition smoothed_staff_list ::
  "LineDetectionSettings \<Rightarrow> 'cc collaborators \<Rightarrow> ImageData \<Rightarrow> line list \<Rightarrow> system list" where
  "smoothed_staff_list s h d kept =
     snd (smoothing_stage s h (post_processed_staff_list s h d kept))"

definition fitted_staff_list ::
  "LineDetectionSettings \<Rightarrow> 'cc collaborators \<Rightarrow> ImageData \<Rightarrow> line list \<Rightarrow> system list" where
  "fitted_staff_list s h d kept = snd (fitting_stage s h (smoothed_staff_list s h d kept))"

text \<open>The calls of the two smoothers and of the fitter.\<close>

fun is_smoother :: "call \<Rightarrow> bool" where
  "is_smoother (Smooth_lines v) = True"
| "is_smoother (Smooth_lines_advanced v) = True"
| "is_smoother c = False"

fun is_fitter :: "call \<Rightarrow> bool" where
  "is_fitter (Line_fitting v) = True"
| "is_fitter c = False"

section \<open>The absent stages, as the specification describes them\<close>

text \<open>
  Modelled from the spec: the bodies of \<^verbatim>\<open>normalize_connected_components\<close>,
  \<^verbatim>\<open>connect_connected_components_to_line\<close>, \<^verbatim>\<open>prune_small_lines\<close>,
  \<^verbatim>\<open>organize_lines_in_systems\<close>, \<^verbatim>\<open>prune_lines_in_system_with_lowest_intensity\<close>,
  \<^verbatim>\<open>normalize_lines_in_system\<close>, \<^verbatim>\<open>postprocess_staff_systems\<close>, \<^verbatim>\<open>smooth_lines\<close>,
  \<^verbatim>\<open>smooth_lines_advanced\<close> and \<^verbatim>\<open>line_fitting\<close> are in \<^verbatim>\<open>preprocessingUtil\<close> and
  \<^verbatim>\<open>lineDetector\<close>, which are not among the sources. The specification (section 7): on
  a degenerate page (blank image, no foreground) every stage must produce empty or
  zero-length outputs rather than failing.
\<close>

definition empty_in_empty_out :: "'cc collaborators \<Rightarrow> bool" where
  "empty_in_empty_out h =
     (normalize_connected_components h [] = []
    \<and> (\<forall>slh ssh. connect_connected_components_to_line h [] slh ssh = [])
    \<and> (\<forall>ssh. prune_small_lines h [] ssh = [])
    \<and> (\<forall>ssh slh. organize_lines_in_systems h [] ssh slh = [])
    \<and> (\<forall>img. prune_lines_in_system_with_lowest_intensity h [] img = [])
    \<and> (\<forall>ssh img. normalize_lines_in_system h [] ssh img = [])
    \<and> (\<forall>slh binary. postprocess_staff_systems h [] slh binary = [])
    \<and> (\<forall>v. smooth_lines_method h [] v = [])
    \<and> (\<forall>v. smooth_lines_advanced h [] v = [])
    \<and> (\<forall>v. line_fitting h [] v = []))"

text \<open>
  Modelled from the spec: the absent stages that follow the organizer. The
  specification describes each of them system by system and line by line: the system
  pruner drops a system (4.6), the normalizer extends every line in a system (4.7), the
  post-processor re-examines each system (4.8), the smoothers and the fitter replace
  each line (4.9). So a stage that receives systems of \<open>n\<close> lines returns systems of
  \<open>n\<close> lines.
\<close>

definition all_of_size :: "nat \<Rightarrow> system list \<Rightarrow> bool" where
  "all_of_size n ss = list_all (\<lambda>system. length system = n) ss"

definition keeps_system_sizes :: "'cc collaborators \<Rightarrow> bool" where
  "keeps_system_sizes h =
     (\<forall>n ss. all_of_size n ss \<longrightarrow>
        (\<forall>img. all_of_size n (prune_lines_in_system_with_lowest_intensity h ss img))
      \<and> (\<forall>ssh img. all_of_size n (normalize_lines_in_system h ss ssh img))
      \<and> (\<forall>slh binary. all_of_size n (postprocess_staff_systems h ss slh binary))
      \<and> (\<forall>v. all_of_size n (smooth_lines_method h ss v))
      \<and> (\<forall>v. all_of_size n (smooth_lines_advanced h ss v))
      \<and> (\<forall>v. all_of_size n (line_fitting h ss v)))"

section \<open>The calls and the result of \<^verbatim>\<open>detect_staff_lines\<close>\<close>

text \<open>The calls that a returning run makes are fixed by the settings.\<close>

lemma calls_of_settings:
  assumes "detect_staff_lines s h d = Inr (calls, out)"
  shows "calls =
     [Extract_connected_components, Normalize_connected_components,
      Connect_connected_components_to_line, Prune_small_lines]
     @ (if numLine s > 1
        then [Organize_lines_in_systems, Prune_lines_in_system_with_lowest_intensity]
             @ (if lineExtension s then [Normalize_lines_in_system] else [])
        else [])
     @ (if post_process s
        then Postprocess_staff_systems
             # (if numLine s > 1 \<and> lineExtension s then [Normalize_lines_in_system] else [])
        else [])
     @ (if smooth_lines s = 1 then [Smooth_lines (smooth_value_lowpass s)] else [])
     @ (if smooth_lines s = 2 then [Smooth_lines_advanced (smooth_value_adv s)] else [])
     @ (if line_fit_distance s > 0 then [Line_fitting (line_fit_distance s)] else [])"
  using assms
  unfolding detect_staff_lines_def group_lines_def post_process_stage_def
    smoothing_stage_def fitting_stage_def debug_stage_def Let_def
  by (auto split: sum.splits if_splits prod.splits)

text \<open>A returning run returns \<^verbatim>\<open>staff_list\<close> as it is after line 150.\<close>

lemma result_of_detect_staff_lines:
  assumes "detect_staff_lines s h d = Inr (calls, out)"
  shows "\<exists>kept. keep_long_lines (built_lines h d) = Inr kept \<and> out = fitted_staff_list s h d kept"
  using assms
  unfolding detect_staff_lines_def built_lines_def fitted_staff_list_def smoothed_staff_list_def
    post_processed_staff_list_def grouped_staff_list_def debug_stage_def Let_def
  by (auto split: sum.splits if_splits prod.splits)

section \<open>The re-run of the normalizer\<close>

text \<open>
  Claim C2, as the code has it: in a run of \<^verbatim>\<open>detect_staff_lines\<close> that returns, the
  geometry normalizer is called after the post-processor if and only if \<open>post_process\<close>
  and \<open>lineExtension\<close> are set and \<open>numLine\<close> is greater than 1 (the guard of line 140);
  every other stage is called at most once, and the normalizer at most twice.
\<close>

theorem renormalize_guard:
  assumes "detect_staff_lines s h d = Inr (calls, out)"
  shows "(renormalized calls \<longleftrightarrow> post_process s \<and> numLine s > 1 \<and> lineExtension s)
       \<and> distinct (filter (\<lambda>c. c \<noteq> Normalize_lines_in_system) calls)
       \<and> count_list calls Normalize_lines_in_system \<le> 2"
  unfolding calls_of_settings [OF assms] renormalized_def after_postprocess_def
  by auto

text \<open>With two lines per system, post-processing and line extension, the normalizer runs twice.\<close>

theorem renormalize_guard_witness:
  "detect_staff_lines (sample_settings\<lparr>numLine := 2\<rparr>) (sample_collaborators 2 []) sample_image_data
     = Inr ([Extract_connected_components, Normalize_connected_components,
             Connect_connected_components_to_line, Prune_small_lines,
             Organize_lines_in_systems, Prune_lines_in_system_with_lowest_intensity,
             Normalize_lines_in_system, Postprocess_staff_systems,
             Normalize_lines_in_system], [])
   \<and> renormalized [Extract_connected_components, Normalize_connected_components,
             Connect_connected_components_to_line, Prune_small_lines,
             Organize_lines_in_systems, Prune_lines_in_system_with_lowest_intensity,
             Normalize_lines_in_system, Postprocess_staff_systems,
             Normalize_lines_in_system]"
proof -
  have run: "detect_staff_lines (sample_settings\<lparr>numLine := 2\<rparr>) (sample_collaborators 2 [])
      sample_image_data
     = Inr ([Extract_connected_components, Normalize_connected_components,
             Connect_connected_components_to_line, Prune_small_lines,
             Organize_lines_in_systems, Prune_lines_in_system_with_lowest_intensity,
             Normalize_lines_in_system, Postprocess_staff_systems,
             Normalize_lines_in_system], [])"
    by (simp add: detect_staff_lines_def group_lines_def post_process_stage_def
        smoothing_stage_def fitting_stage_def debug_stage_def sample_settings_def
        sample_collaborators_def sample_image_data_def organize_lines_in_systems_spec_def)
  from renormalize_guard [OF run] run show ?thesis
    by (simp add: sample_settings_def)
qed

text \<open>
  The claim as the specification words it (the re-run depends on \<open>post_process\<close> and
  \<open>lineExtension\<close> alone) fails for \<open>numLine = 1\<close>: both flags are set and the
  normalizer is not called.
\<close>

theorem renormalize_without_numLine_counterexample:
  "\<not> (\<forall>s (h :: line collaborators) d calls out.
        detect_staff_lines s h d = Inr (calls, out) \<longrightarrow>
        (renormalized calls \<longleftrightarrow> post_process s \<and> lineExtension s))"
proof
  assume claim: "\<forall>s (h :: line collaborators) d calls out.
        detect_staff_lines s h d = Inr (calls, out) \<longrightarrow>
        (renormalized calls \<longleftrightarrow> post_process s \<and> lineExtension s)"
  have run: "detect_staff_lines sample_settings (sample_collaborators 1 []) sample_image_data
     = Inr ([Extract_connected_components, Normalize_connected_components,
             Connect_connected_components_to_line, Prune_small_lines,
             Postprocess_staff_systems], [])"
    by (simp add: detect_staff_lines_def group_lines_def post_process_stage_def
        smoothing_stage_def fitting_stage_def debug_stage_def sample_settings_def
        sample_collaborators_def sample_image_data_def)
  have "\<not> renormalized [Extract_connected_components, Normalize_connected_components,
             Connect_connected_components_to_line, Prune_small_lines,
             Postprocess_staff_systems]"
    by (simp add: renormalized_def after_postprocess_def)
  moreover have "post_process sample_settings \<and> lineExtension sample_settings"
    by (simp add: sample_settings_def)
  ultimately show False using claim run by blast
qed

section \<open>The smoothing stage\<close>

lemma filter_smoother_calls:
  assumes "detect_staff_lines s h d = Inr (calls, out)"
  shows "filter is_smoother calls =
       (if smooth_lines s = 1 then [Smooth_lines (smooth_value_lowpass s)]
        else if smooth_lines s = 2 then [Smooth_lines_advanced (smooth_value_adv s)]
        else [])"
  unfolding calls_of_settings [OF assms] by simp

text \<open>
  Claim C6: the smoothing stage of \<^verbatim>\<open>detect_staff_lines\<close> is governed by
  \<open>smooth_lines\<close>. With 0 the staff list passes through unchanged; with 1 it is the
  result of the low-pass smoother called with \<open>smooth_value_lowpass\<close>; with 2 it is the
  result of the advanced smoother called with \<open>smooth_value_adv\<close>. In a run that
  returns, the smoother calls are exactly that one call, and none for 0.
\<close>

theorem smoothing_by_setting:
  "(smooth_lines s = 0 \<longrightarrow>
      smoothed_staff_list s h d kept = post_processed_staff_list s h d kept)
   \<and> (smooth_lines s = 1 \<longrightarrow>
        smoothed_staff_list s h d kept =
          smooth_lines_method h (post_processed_staff_list s h d kept) (smooth_value_lowpass s))
   \<and> (smooth_lines s = 2 \<longrightarrow>
        smoothed_staff_list s h d kept =
          smooth_lines_advanced h (post_processed_staff_list s h d kept) (smooth_value_adv s))
   \<and> (detect_staff_lines s h d = Inr (calls, out) \<longrightarrow>
        filter is_smoother calls =
          (if smooth_lines s = 1 then [Smooth_lines (smooth_value_lowpass s)]
           else if smooth_lines s = 2 then [Smooth_lines_advanced (smooth_value_adv s)]
           else []))"
  using filter_smoother_calls [of s h d calls out]
  by (simp add: smoothed_staff_list_def smoothing_stage_def)

text \<open>With \<open>smooth_lines = 1\<close> the sample low-pass smoother is the one applied: the line moves one row down.\<close>

theorem smoothing_by_setting_witness:
  "detect_staff_lines (sample_settings\<lparr>smooth_lines := 1\<rparr>) (sample_collaborators 1 [[(3, 0), (3, 40), (3, 80)]])
     sample_image_data
   = Inr ([Extract_connected_components, Normalize_connected_components,
           Connect_connected_components_to_line, Prune_small_lines,
           Postprocess_staff_systems, Smooth_lines (1 / 5)],
          [[[(4, 0), (4, 40), (4, 80)]]])
   \<and> filter is_smoother [Extract_connected_components, Normalize_connected_components,
           Connect_connected_components_to_line, Prune_small_lines,
           Postprocess_staff_systems, Smooth_lines (1 / 5)] = [Smooth_lines (1 / 5)]
   \<and> smoothed_staff_list (sample_settings\<lparr>smooth_lines := 1\<rparr>)
        (sample_collaborators 1 [[(3, 0), (3, 40), (3, 80)]]) sample_image_data
        [[(3, 0), (3, 40), (3, 80)]]
      = [[[(4, 0), (4, 40), (4, 80)]]]"
proof -
  have run: "detect_staff_lines (sample_settings\<lparr>smooth_lines := 1\<rparr>)
     (sample_collaborators 1 [[(3, 0), (3, 40), (3, 80)]]) sample_image_data
   = Inr ([Extract_connected_components, Normalize_connected_components,
           Connect_connected_components_to_line, Prune_small_lines,
           Postprocess_staff_systems, Smooth_lines (1 / 5)],
          [[[(4, 0), (4, 40), (4, 80)]]])"
    by (simp add: detect_staff_lines_def group_lines_def post_process_stage_def
        smoothing_stage_def fitting_stage_def debug_stage_def sample_settings_def
        sample_collaborators_def sample_image_data_def horizontal_span_def)
  have pp: "post_processed_staff_list (sample_settings\<lparr>smooth_lines := 1\<rparr>)
        (sample_collaborators 1 [[(3, 0), (3, 40), (3, 80)]]) sample_image_data
        [[(3, 0), (3, 40), (3, 80)]] = [[[(3, 0), (3, 40), (3, 80)]]]"
    by (simp add: post_processed_staff_list_def grouped_staff_list_def group_lines_def
        post_process_stage_def sample_settings_def sample_collaborators_def)
  from smoothing_by_setting [of "sample_settings\<lparr>smooth_lines := 1\<rparr>"
      "sample_collaborators 1 [[(3, 0), (3, 40), (3, 80)]]" sample_image_data
      "[[(3, 0), (3, 40), (3, 80)]]"
      "[Extract_connected_components, Normalize_connected_components,
           Connect_connected_components_to_line, Prune_small_lines,
           Postprocess_staff_systems, Smooth_lines (1 / 5)]"
      "[[[(4, 0), (4, 40), (4, 80)]]]"] run pp
  show ?thesis
    by (simp add: sample_settings_def sample_collaborators_def)
qed

section \<open>The fitting stage\<close>

text \<open>
  Claim C7: \<^verbatim>\<open>line_fitting\<close> is applied to the staff list if and only if
  \<open>line_fit_distance\<close> is strictly greater than 0; with \<open>line_fit_distance = 0\<close> the
  staff list after the smoothing stage is the one returned.
\<close>

theorem fitting_by_distance:
  "(line_fit_distance s > 0 \<longrightarrow>
      fitted_staff_list s h d kept =
        line_fitting h (smoothed_staff_list s h d kept) (line_fit_distance s))
   \<and> (line_fit_distance s = 0 \<longrightarrow>
        fitted_staff_list s h d kept = smoothed_staff_list s h d kept)
   \<and> (detect_staff_lines s h d = Inr (calls, out) \<longrightarrow>
        (list_ex is_fitter calls \<longleftrightarrow> line_fit_distance s > 0)
        \<and> (\<exists>kept. keep_long_lines (built_lines h d) = Inr kept
                  \<and> out = fitted_staff_list s h d kept))"
proof -
  have "list_ex is_fitter calls \<longleftrightarrow> line_fit_distance s > 0"
    if "detect_staff_lines s h d = Inr (calls, out)"
    unfolding calls_of_settings [OF that] by simp
  then show ?thesis
    using result_of_detect_staff_lines [of s h d calls out]
    by (simp add: fitted_staff_list_def fitting_stage_def)
qed

text \<open>With distance 1 the sample fitter runs and drops the middle point; with distance 0 nothing changes.\<close>

theorem fitting_by_distance_witness:
  "detect_staff_lines (sample_settings\<lparr>line_fit_distance := 1\<rparr>)
     (sample_collaborators 1 [[(3, 0), (3, 40), (3, 80)]]) sample_image_data
   = Inr ([Extract_connected_components, Normalize_connected_components,
           Connect_connected_components_to_line, Prune_small_lines,
           Postprocess_staff_systems, Line_fitting 1],
          [[[(3, 0), (3, 80)]]])
   \<and> list_ex is_fitter [Extract_connected_components, Normalize_connected_components,
           Connect_connected_components_to_line, Prune_small_lines,
           Postprocess_staff_systems, Line_fitting 1]
   \<and> fitted_staff_list sample_settings
        (sample_collaborators 1 [[(3, 0), (3, 40), (3, 80)]]) sample_image_data
        [[(3, 0), (3, 40), (3, 80)]]
      = smoothed_staff_list sample_settings
        (sample_collaborators 1 [[(3, 0), (3, 40), (3, 80)]]) sample_image_data
        [[(3, 0), (3, 40), (3, 80)]]"
proof -
  have run: "detect_staff_lines (sample_settings\<lparr>line_fit_distance := 1\<rparr>)
     (sample_collaborators 1 [[(3, 0), (3, 40), (3, 80)]]) sample_image_data
   = Inr ([Extract_connected_components, Normalize_connected_components,
           Connect_connected_components_to_line, Prune_small_lines,
           Postprocess_staff_systems, Line_fitting 1],
          [[[(3, 0), (3, 80)]]])"
    by (simp add: detect_staff_lines_def group_lines_def post_process_stage_def
        smoothing_stage_def fitting_stage_def debug_stage_def sample_settings_def
        sample_collaborators_def sample_image_data_def horizontal_span_def)
  have zero: "line_fit_distance sample_settings = 0"
    by (simp add: sample_settings_def)
  from fitting_by_distance [of "sample_settings\<lparr>line_fit_distance := 1\<rparr>"
      "sample_collaborators 1 [[(3, 0), (3, 40), (3, 80)]]" sample_image_data
      "[[(3, 0), (3, 40), (3, 80)]]"
      "[Extract_connected_components, Normalize_connected_components,
           Connect_connected_components_to_line, Prune_small_lines,
           Postprocess_staff_systems, Line_fitting 1]"
      "[[[(3, 0), (3, 80)]]]"]
    fitting_by_distance [of sample_settings
      "sample_collaborators 1 [[(3, 0), (3, 40), (3, 80)]]" sample_image_data
      "[[(3, 0), (3, 40), (3, 80)]]" "[]" "[]"] run zero
  show ?thesis
    by (simp add: sample_settings_def)
qed

section \<open>Singleton systems\<close>

text \<open>
  Claim C9: for \<open>numLine \<le> 1\<close>, \<^verbatim>\<open>detect_staff_lines\<close> wraps each line that
  \<^verbatim>\<open>prune_small_lines\<close> returns into a system of its own, in the order of the line
  list, and calls neither the system organizer nor the intensity-based pruner nor the
  geometry normalizer; the later stages receive that list of singleton systems.
\<close>

theorem singleton_systems:
  assumes "numLine s \<le> 1"
  shows "grouped_staff_list s h d kept =
           map (\<lambda>x. [x]) (prune_small_lines h kept (staff_space_height d))
       \<and> (detect_staff_lines s h d = Inr (calls, out) \<longrightarrow>
            Organize_lines_in_systems \<notin> set calls
            \<and> Prune_lines_in_system_with_lowest_intensity \<notin> set calls
            \<and> Normalize_lines_in_system \<notin> set calls
            \<and> (\<exists>kept. keep_long_lines (built_lines h d) = Inr kept
                  \<and> out = fitted_staff_list s h d kept))"
proof -
  have "Organize_lines_in_systems \<notin> set calls
            \<and> Prune_lines_in_system_with_lowest_intensity \<notin> set calls
            \<and> Normalize_lines_in_system \<notin> set calls"
    if "detect_staff_lines s h d = Inr (calls, out)"
    unfolding calls_of_settings [OF that] using assms by simp
  then show ?thesis
    using result_of_detect_staff_lines [of s h d calls out] assms
    by (simp add: grouped_staff_list_def group_lines_def)
qed

text \<open>Three components, one of them short: two singleton systems, and four calls.\<close>

theorem singleton_systems_witness:
  "numLine sample_settings \<le> 1
   \<and> detect_staff_lines (sample_settings\<lparr>post_process := False\<rparr>)
       (sample_collaborators 1 [[(3, 0), (3, 80)], [(9, 0), (9, 30)], [(23, 5), (23, 90)]])
       sample_image_data
     = Inr ([Extract_connected_components, Normalize_connected_components,
             Connect_connected_components_to_line, Prune_small_lines],
            [[[(3, 0), (3, 80)]], [[(23, 5), (23, 90)]]])
   \<and> grouped_staff_list (sample_settings\<lparr>post_process := False\<rparr>)
       (sample_collaborators 1 [[(3, 0), (3, 80)], [(9, 0), (9, 30)], [(23, 5), (23, 90)]])
       sample_image_data [[(3, 0), (3, 80)], [(23, 5), (23, 90)]]
     = [[[(3, 0), (3, 80)]], [[(23, 5), (23, 90)]]]"
proof -
  have n: "numLine (sample_settings\<lparr>post_process := False\<rparr>) \<le> 1"
    by (simp add: sample_settings_def)
  have run: "detect_staff_lines (sample_settings\<lparr>post_process := False\<rparr>)
       (sample_collaborators 1 [[(3, 0), (3, 80)], [(9, 0), (9, 30)], [(23, 5), (23, 90)]])
       sample_image_data
     = Inr ([Extract_connected_components, Normalize_connected_components,
             Connect_connected_components_to_line, Prune_small_lines],
            [[[(3, 0), (3, 80)]], [[(23, 5), (23, 90)]]])"
    by (simp add: detect_staff_lines_def group_lines_def post_process_stage_def
        smoothing_stage_def fitting_stage_def debug_stage_def sample_settings_def
        sample_collaborators_def sample_image_data_def horizontal_span_def)
  from singleton_systems [OF n, of
      "sample_collaborators 1 [[(3, 0), (3, 80)], [(9, 0), (9, 30)], [(23, 5), (23, 90)]]"
      sample_image_data "[[(3, 0), (3, 80)], [(23, 5), (23, 90)]]"] run
  show ?thesis
    by (simp add: sample_settings_def sample_collaborators_def)
qed

section \<open>The choice between the basic and the advanced path\<close>

text \<open>
  Claim C5: for every list of images, \<^verbatim>\<open>detect\<close> yields exactly what
  \<^verbatim>\<open>detect_basic\<close> yields when \<open>settings.model\<close> is absent or false (None or the
  empty string), and exactly what \<^verbatim>\<open>detect_advanced\<close> yields when it is present.
\<close>

theorem detect_selects_path:
  "(model s = None \<or> model s = Some [] \<longrightarrow> detect s h images = detect_basic s h images)
   \<and> (\<forall>p. model s = Some p \<and> p \<noteq> [] \<longrightarrow> detect s h images = detect_advanced s h images)"
  by (auto simp: detect_def truthy_def)

text \<open>
  With a predictor that yields nothing the advanced path yields nothing, while the
  basic path yields a result for the image.
\<close>

theorem detect_selects_path_witness:
  "detect sample_settings
     ((sample_collaborators 1 [[(3, 0), (3, 80)]])\<lparr>predict := (\<lambda>data. [])\<rparr>) [[[0, 255], [255, 255]]]
   = detect_basic sample_settings
     ((sample_collaborators 1 [[(3, 0), (3, 80)]])\<lparr>predict := (\<lambda>data. [])\<rparr>) [[[0, 255], [255, 255]]]
   \<and> detect (sample_settings\<lparr>model := Some ''net''\<rparr>)
     ((sample_collaborators 1 [[(3, 0), (3, 80)]])\<lparr>predict := (\<lambda>data. [])\<rparr>) [[[0, 255], [255, 255]]]
   = []
   \<and> detect_basic (sample_settings\<lparr>model := Some ''net''\<rparr>)
     ((sample_collaborators 1 [[(3, 0), (3, 80)]])\<lparr>predict := (\<lambda>data. [])\<rparr>) [[[0, 255], [255, 255]]]
   \<noteq> []"
proof -
  have adv: "detect_advanced (sample_settings\<lparr>model := Some ''net''\<rparr>)
     ((sample_collaborators 1 [[(3, 0), (3, 80)]])\<lparr>predict := (\<lambda>data. [])\<rparr>) [[[0, 255], [255, 255]]]
     = []"
    by (simp add: detect_advanced_def)
  have bas: "detect_basic (sample_settings\<lparr>model := Some ''net''\<rparr>)
     ((sample_collaborators 1 [[(3, 0), (3, 80)]])\<lparr>predict := (\<lambda>data. [])\<rparr>) [[[0, 255], [255, 255]]]
     \<noteq> []"
    by (simp add: detect_basic_def split: sum.splits)
  from detect_selects_path [of sample_settings
      "(sample_collaborators 1 [[(3, 0), (3, 80)]])\<lparr>predict := (\<lambda>data. [])\<rparr>"
      "[[[0, 255], [255, 255]]]"]
    detect_selects_path [of "sample_settings\<lparr>model := Some ''net''\<rparr>"
      "(sample_collaborators 1 [[(3, 0), (3, 80)]])\<lparr>predict := (\<lambda>data. [])\<rparr>"
      "[[[0, 255], [255, 255]]]"] adv bas
  show ?thesis
    by (simp add: sample_settings_def)
qed

section \<open>Contrast enhancement in \<^verbatim>\<open>detect_basic\<close>\<close>

text \<open>For a histogram of ten bins, the slice \<^verbatim>\<open>[1:-2]\<close> holds the bins 1 to 7.\<close>

lemma sum_slice_1_m2:
  assumes "length xs = 10"
  shows "sum_list (slice_1_m2 xs) = (\<Sum>i = 1..7. (xs :: int list) ! i)"
proof -
  from assms obtain a0 a1 a2 a3 a4 a5 a6 a7 a8 a9 where
    "xs = [a0, a1, a2, a3, a4, a5, a6, a7, a8, a9]"
    by (auto simp: numeral_eq_Suc length_Suc_conv)
  then show ?thesis
    by (simp add: slice_1_m2_def numeral_eq_Suc sum.atLeast_Suc_atMost)
qed

text \<open>
  Claim C10: in \<^verbatim>\<open>detect_basic\<close>, when the ten-bin histogram of the scaled image has
  no mass in the bins 1 to 7, the scaled image is binarized as it is; otherwise the
  enhanced image is binarized. In both cases \<open>ImageData.image\<close> is the raw image divided
  by 255.
\<close>

theorem enhance_when_middle_bins:
  assumes "length (histogram h (scale255 img)) = 10"
  shows "image (basic_image_data s h img) = map (map (\<lambda>v. of_int v / 255)) img
       \<and> ((\<Sum>i = 1..7. histogram h (scale255 img) ! i) = 0 \<longrightarrow>
            basic_binary h img = binarize h (scale255 img))
       \<and> ((\<Sum>i = 1..7. histogram h (scale255 img) ! i) \<noteq> 0 \<longrightarrow>
            basic_binary h img = binarize h (enhance h (scale255 img)))"
  using sum_slice_1_m2 [OF assms]
  by (simp add: basic_image_data_def basic_binary_def Let_def scale255_def split: prod.splits)

text \<open>A histogram with mass in bin 3: the enhanced (here inverted) image is binarized.\<close>

theorem enhance_when_middle_bins_witness:
  "length (histogram ((sample_collaborators 1 [])\<lparr>histogram := (\<lambda>gray. [1, 0, 0, 2, 0, 0, 0, 0, 0, 3]),
        enhance := map (map (\<lambda>v. 1 - v))\<rparr>) (scale255 [[0, 255], [255, 255]])) = 10
   \<and> image (basic_image_data sample_settings
        ((sample_collaborators 1 [])\<lparr>histogram := (\<lambda>gray. [1, 0, 0, 2, 0, 0, 0, 0, 0, 3]),
        enhance := map (map (\<lambda>v. 1 - v))\<rparr>) [[0, 255], [255, 255]])
     = [[0, 1], [1, 1]]
   \<and> basic_binary ((sample_collaborators 1 [])\<lparr>histogram := (\<lambda>gray. [1, 0, 0, 2, 0, 0, 0, 0, 0, 3]),
        enhance := map (map (\<lambda>v. 1 - v))\<rparr>) [[0, 255], [255, 255]]
     = [[1, 0], [0, 0]]"
proof -
  have len: "length (histogram ((sample_collaborators 1 [])\<lparr>histogram := (\<lambda>gray. [1, 0, 0, 2, 0, 0, 0, 0, 0, 3]),
        enhance := map (map (\<lambda>v. 1 - v))\<rparr>) (scale255 [[0, 255], [255, 255]])) = 10"
    by simp
  from enhance_when_middle_bins [OF len, of sample_settings] show ?thesis
    by (simp add: sample_collaborators_def scale255_def numeral_eq_Suc sum.atLeast_Suc_atMost)
qed

section \<open>The length filter\<close>

text \<open>
  The comprehension of line 122 raises IndexError when a line has no point, and
  otherwise keeps, in order, exactly the lines whose last column exceeds the first by
  more than 50.
\<close>

theorem length_filter_exact:
  "keep_long_lines ls =
     (if [] \<in> set ls then Inl IndexError
      else Inr (filter (\<lambda>l. snd (last l) - snd (hd l) > 50) ls))"
proof (induction ls)
  case Nil
  then show ?case by simp
next
  case (Cons a ls)
  then show ?case
    by (cases a) (auto simp: horizontal_span_def)
qed

text \<open>
  \<^verbatim>\<open>detect_staff_lines\<close> raises IndexError exactly when the Line Builder returns a line
  without points.
\<close>

theorem empty_line_raises:
  "detect_staff_lines s h d = Inl IndexError \<longleftrightarrow> [] \<in> set (built_lines h d)"
proof -
  have k: "keep_long_lines ls = Inl IndexError \<longleftrightarrow> [] \<in> set ls"
    "(\<exists>kept. keep_long_lines ls = Inr kept) \<longleftrightarrow> [] \<notin> set ls" for ls
    by (induction ls) (auto simp: horizontal_span_def split: list.splits sum.splits)
  show ?thesis
  proof (cases "keep_long_lines (built_lines h d)")
    case (Inl e)
    then show ?thesis
      using k(1) [of "built_lines h d"] k(2) [of "built_lines h d"]
      by (cases e) (auto simp: detect_staff_lines_def built_lines_def)
  next
    case (Inr kept)
    then have "[] \<notin> set (built_lines h d)"
      using k(2) by blast
    moreover have "detect_staff_lines s h d \<noteq> Inl IndexError"
      using Inr unfolding detect_staff_lines_def built_lines_def debug_stage_def Let_def
      by (auto split: prod.splits)
    ultimately show ?thesis by simp
  qed
qed

section \<open>The blank page\<close>

text \<open>
  Claim C3: on a blank page, where the extractor finds no component in the run-length
  image, and with stages that return an empty result for an empty argument,
  \<^verbatim>\<open>detect_staff_lines\<close> does not fail and returns the empty list of systems, whatever
  the settings.
\<close>

theorem blank_page_no_systems:
  assumes "extract_connected_components h (horizontal_runs_img d) = []"
    and "empty_in_empty_out h"
  shows "\<exists>calls. detect_staff_lines s h d = Inr (calls, [])"
  using assms
  unfolding empty_in_empty_out_def detect_staff_lines_def group_lines_def post_process_stage_def
    smoothing_stage_def fitting_stage_def debug_stage_def Let_def
  by simp

text \<open>Five lines per system, advanced smoothing, fitting and the debug plot on a page without components.\<close>

theorem blank_page_no_systems_witness:
  "extract_connected_components (sample_collaborators 5 []) (horizontal_runs_img sample_image_data) = []
   \<and> empty_in_empty_out (sample_collaborators 5 [])
   \<and> (\<exists>calls. detect_staff_lines (sample_settings\<lparr>numLine := 5, smooth_lines := 2,
          line_fit_distance := 1, debug := True\<rparr>) (sample_collaborators 5 []) sample_image_data
        = Inr (calls, []))"
proof -
  have blank: "extract_connected_components (sample_collaborators 5 [])
      (horizontal_runs_img sample_image_data) = []"
    by (simp add: sample_collaborators_def)
  have safe: "empty_in_empty_out (sample_collaborators 5 [])"
    by (simp add: empty_in_empty_out_def sample_collaborators_def
        organize_lines_in_systems_spec_def)
  from blank_page_no_systems [OF blank safe] blank safe show ?thesis
    by simp
qed

section \<open>The number of lines of a system\<close>

text \<open>The organizer of the specification emits only complete groups.\<close>

lemma organize_from_sizes: "all_of_size n (organize_from fits n cur ls)"
  by (induction ls arbitrary: cur) (simp_all add: all_of_size_def Let_def)

lemma keeps_system_sizesD:
  assumes "keeps_system_sizes h" "all_of_size n ss"
  shows "all_of_size n (prune_lines_in_system_with_lowest_intensity h ss img)"
    and "all_of_size n (normalize_lines_in_system h ss ssh img)"
    and "all_of_size n (postprocess_staff_systems h ss slh binary)"
    and "all_of_size n (smooth_lines_method h ss v)"
    and "all_of_size n (smooth_lines_advanced h ss v)"
    and "all_of_size n (line_fitting h ss v)"
  using assms by (simp_all add: keeps_system_sizes_def)

lemma grouped_sizes:
  assumes n: "numLine s > 1"
    and org: "organize_lines_in_systems h =
        (\<lambda>line_list ssh slh. organize_lines_in_systems_spec row tol (numLine s) line_list ssh)"
    and ks: "keeps_system_sizes h"
  shows "all_of_size (nat (numLine s)) (grouped_staff_list s h d kept)"
proof -
  let ?pr = "prune_small_lines h kept (staff_space_height d)"
  let ?org = "organize_lines_in_systems h ?pr (staff_space_height d) (staff_line_height d)"
  let ?pi = "prune_lines_in_system_with_lowest_intensity h ?org (horizontal_runs_img d)"
  let ?nl = "normalize_lines_in_system h ?pi (staff_space_height d) (horizontal_runs_img d)"
  have o: "all_of_size (nat (numLine s)) ?org"
    unfolding org organize_lines_in_systems_spec_def by (rule organize_from_sizes)
  have pi: "all_of_size (nat (numLine s)) ?pi"
    by (rule keeps_system_sizesD(1) [OF ks o])
  have nl: "all_of_size (nat (numLine s)) ?nl"
    by (rule keeps_system_sizesD(2) [OF ks pi])
  show ?thesis
    using n pi nl by (simp add: grouped_staff_list_def group_lines_def Let_def)
qed

lemma fitted_sizes:
  assumes ks: "keeps_system_sizes h"
    and g: "all_of_size n (grouped_staff_list s h d kept)"
  shows "all_of_size n (fitted_staff_list s h d kept)"
proof -
  let ?g = "grouped_staff_list s h d kept"
  let ?pp = "postprocess_staff_systems h ?g (staff_line_height d) (binarize h (image d))"
  let ?nl = "normalize_lines_in_system h ?pp (staff_space_height d) (horizontal_runs_img d)"
  let ?p = "post_processed_staff_list s h d kept"
  let ?sm = "smoothed_staff_list s h d kept"
  have pp: "all_of_size n ?pp"
    by (rule keeps_system_sizesD(3) [OF ks g])
  have nl: "all_of_size n ?nl"
    by (rule keeps_system_sizesD(2) [OF ks pp])
  have p: "all_of_size n ?p"
    using g pp nl by (simp add: post_processed_staff_list_def post_process_stage_def Let_def)
  have lo: "all_of_size n (smooth_lines_method h ?p (smooth_value_lowpass s))"
    by (rule keeps_system_sizesD(4) [OF ks p])
  have ad: "all_of_size n (smooth_lines_advanced h ?p (smooth_value_adv s))"
    by (rule keeps_system_sizesD(5) [OF ks p])
  have sm: "all_of_size n ?sm"
    using p lo ad by (simp add: smoothed_staff_list_def smoothing_stage_def)
  have fi: "all_of_size n (line_fitting h ?sm (line_fit_distance s))"
    by (rule keeps_system_sizesD(6) [OF ks sm])
  show ?thesis
    using sm fi by (simp add: fitted_staff_list_def fitting_stage_def)
qed

text \<open>
  Claim C4: for \<open>numLine > 1\<close>, every staff system that \<^verbatim>\<open>detect_staff_lines\<close> returns
  has exactly \<open>numLine\<close> lines, when the organizer is the one of the specification, which
  drops the lines that do not form a complete group, and the later stages keep the
  number of lines of a system.
\<close>

theorem systems_have_numLine_lines:
  assumes "numLine s > 1"
    and "organize_lines_in_systems h =
        (\<lambda>line_list ssh slh. organize_lines_in_systems_spec row tol (numLine s) line_list ssh)"
    and "keeps_system_sizes h"
    and "detect_staff_lines s h d = Inr (calls, out)"
  shows "\<forall>system \<in> set out. int (length system) = numLine s"
proof -
  from result_of_detect_staff_lines [OF assms(4)] obtain kept where
    out: "out = fitted_staff_list s h d kept"
    by blast
  have "all_of_size (nat (numLine s)) out"
    unfolding out by (rule fitted_sizes [OF assms(3) grouped_sizes [OF assms(1,2,3)]])
  then show ?thesis
    using assms(1) by (auto simp: all_of_size_def list_all_iff)
qed

lemma keeps_system_sizes_sample: "keeps_system_sizes (sample_collaborators n comps)"
  by (simp add: keeps_system_sizes_def sample_collaborators_def all_of_size_def list_all_iff)

text \<open>
  Three lines at rows 3, 23 and 60 with a staff space of 20 and two lines per system:
  one system of two lines, and the third line is dropped.
\<close>

theorem systems_have_numLine_lines_witness:
  "numLine (sample_settings\<lparr>numLine := 2\<rparr>) > 1
   \<and> keeps_system_sizes
       (sample_collaborators 2 [[(3, 0), (3, 80)], [(23, 0), (23, 80)], [(60, 0), (60, 80)]])
   \<and> detect_staff_lines (sample_settings\<lparr>numLine := 2\<rparr>)
       (sample_collaborators 2 [[(3, 0), (3, 80)], [(23, 0), (23, 80)], [(60, 0), (60, 80)]])
       sample_image_data
     = Inr ([Extract_connected_components, Normalize_connected_components,
             Connect_connected_components_to_line, Prune_small_lines,
             Organize_lines_in_systems, Prune_lines_in_system_with_lowest_intensity,
             Normalize_lines_in_system, Postprocess_staff_systems,
             Normalize_lines_in_system],
            [[[(3, 0), (3, 80)], [(23, 0), (23, 80)]]])
   \<and> list_all (\<lambda>system. int (length system) = 2)
        ([[[(3, 0), (3, 80)], [(23, 0), (23, 80)]]] :: system list)"
proof -
  let ?h = "sample_collaborators 2 [[(3, 0), (3, 80)], [(23, 0), (23, 80)], [(60, 0), (60, 80)]]"
  let ?s = "sample_settings\<lparr>numLine := 2\<rparr>"
  have n: "numLine ?s > 1"
    by (simp add: sample_settings_def)
  have org: "organize_lines_in_systems ?h =
        (\<lambda>line_list ssh slh. organize_lines_in_systems_spec first_row 2 (numLine ?s) line_list ssh)"
    by (simp add: sample_collaborators_def sample_settings_def)
  have run: "detect_staff_lines ?s ?h sample_image_data
     = Inr ([Extract_connected_components, Normalize_connected_components,
             Connect_connected_components_to_line, Prune_small_lines,
             Organize_lines_in_systems, Prune_lines_in_system_with_lowest_intensity,
             Normalize_lines_in_system, Postprocess_staff_systems,
             Normalize_lines_in_system],
            [[[(3, 0), (3, 80)], [(23, 0), (23, 80)]]])"
    by (simp add: detect_staff_lines_def group_lines_def post_process_stage_def
        smoothing_stage_def fitting_stage_def debug_stage_def sample_settings_def
        sample_collaborators_def sample_image_data_def horizontal_span_def
        organize_lines_in_systems_spec_def within_tolerance_def first_row_def)
  from systems_have_numLine_lines [OF n org keeps_system_sizes_sample run]
    n keeps_system_sizes_sample run
  show ?thesis
    by (simp add: list_all_iff sample_settings_def)
qed

end
